theory Spec2Isabelle
  imports Main
begin

section \<open>Python values and text primitives used by the repository\<close>

text \<open>The exceptions that the modelled functions raise or let through.\<close>

datatype py_error =
    ValueError | TypeError | AttributeError
  | FileNotFoundError | OSError | JSONDecodeError | UnicodeDecodeError
  | RequestException

text \<open>
  Python strings are modelled as \<open>string\<close>; a \<open>char\<close> stands for a code point in the
  range 0..255 (code points above 255 are outside the model). In that range the decimal
  digits known to \<open>int()\<close> and to the regular-expression class \<open>\d\<close> are the ASCII
  digits, and the white space of \<open>str.isspace\<close>, removed by \<open>str.strip()\<close>, is
  9..13, 28..32, 133 and 160.
\<close>

definition is_space :: "char \<Rightarrow> bool" where
  "is_space c = (let n = (of_char c :: nat) in
     (9 \<le> n \<and> n \<le> 13) \<or> (28 \<le> n \<and> n \<le> 32) \<or> n = 133 \<or> n = 160)"

definition is_ascii_space :: "char \<Rightarrow> bool" where
  "is_ascii_space c = (let n = (of_char c :: nat) in (9 \<le> n \<and> n \<le> 13) \<or> n = 32)"

definition is_digit :: "char \<Rightarrow> bool" where
  "is_digit c = (let n = (of_char c :: nat) in 48 \<le> n \<and> n \<le> 57)"

definition digit_val :: "char \<Rightarrow> int" where
  "digit_val c = int (of_char c) - 48"

text \<open>\<open>str.lower()\<close> on one code point below 256.\<close>

definition py_lower :: "char \<Rightarrow> char" where
  "py_lower c = (let n = (of_char c :: nat) in
     if (65 \<le> n \<and> n \<le> 90) \<or> (192 \<le> n \<and> n \<le> 222 \<and> n \<noteq> 215)
     then char_of (n + 32) else c)"

text \<open>Removal of the characters of a class at both ends of a string.\<close>

definition strip_with :: "(char \<Rightarrow> bool) \<Rightarrow> string \<Rightarrow> string" where
  "strip_with sp s = rev (dropWhile sp (rev (dropWhile sp s)))"


text \<open>\<open>s.split(sep)\<close> for a one-character separator: never the empty list.\<close>

fun split_on :: "char \<Rightarrow> string \<Rightarrow> string list" where
  "split_on sep [] = [[]]"
| "split_on sep (c # cs) =
     (if c = sep then [] # split_on sep cs
      else (case split_on sep cs of
              [] \<Rightarrow> [[c]]
            | p # ps \<Rightarrow> (c # p) # ps))"

text \<open>The value of a string of decimal digits, most significant digit first.\<close>

definition dec_val :: "string \<Rightarrow> int" where
  "dec_val s = foldl (\<lambda>a c. 10 * a + digit_val c) 0 s"

text \<open>
  The digit part of an \<open>int()\<close> literal: digits, with single underscores allowed
  between two digits.
\<close>

fun digits_ok :: "string \<Rightarrow> bool" where
  "digits_ok [] = False"
| "digits_ok [c] = is_digit c"
| "digits_ok (c # d # r) =
     (is_digit c \<and> (if d = CHR ''_'' then digits_ok r else digits_ok (d # r)))"

text \<open>
  CPython refuses to convert a decimal literal of more than
  \<open>sys.int_info.default_max_str_digits\<close> digits (underscores and the sign are not
  counted, leading zeros are) and raises \<open>ValueError\<close>.
\<close>

definition max_str_digits :: nat where
  "max_str_digits = 4300"

definition py_digits :: "string \<Rightarrow> int option" where
  "py_digits s =
     (if digits_ok s then
        (let ds = filter (\<lambda>c. c \<noteq> CHR ''_'') s in
         if max_str_digits < length ds then None else Some (dec_val ds))
      else None)"

text \<open>
  The white space that \<open>int()\<close> skips at both ends of its argument: the ASCII white
  space when the whole string is ASCII; otherwise every \<open>str.isspace\<close> character, which
  CPython first maps to a blank.
\<close>

definition int_space :: "string \<Rightarrow> char \<Rightarrow> bool" where
  "int_space s =
     (if list_all (\<lambda>c. (of_char c :: nat) < 128) s then is_ascii_space else is_space)"

text \<open>\<open>int(s)\<close> in base ten; \<open>None\<close> stands for \<open>ValueError\<close>.\<close>

definition py_int :: "string \<Rightarrow> int option" where
  "py_int s =
     (case strip_with (int_space s) s of
        [] \<Rightarrow> None
      | c # r \<Rightarrow>
          if c = CHR ''-'' then map_option uminus (py_digits r)
          else if c = CHR ''+'' then py_digits r
          else py_digits (c # r))"

section \<open>Selection parsing (cli.py)\<close>








section \<open>Artifact naming (downloader.py)\<close>

text \<open>The decimal digits of a natural number, as \<open>str()\<close> and \<open>format()\<close> print them.\<close>

definition digit_char :: "nat \<Rightarrow> char" where
  "digit_char d = char_of (48 + d)"

fun dec_str :: "nat \<Rightarrow> string" where
  "dec_str n =
     (if n < 10 then [digit_char n] else dec_str (n div 10) @ [digit_char (n mod 10)])"

declare dec_str.simps [simp del]

text \<open>
  The format specification \<open>02d\<close>: sign-aware zero padding to a minimum width of two.
  A negative number already has width two or more with its sign.
\<close>

definition format_02d :: "int \<Rightarrow> string" where
  "format_02d n =
     (if n < 0 then CHR ''-'' # dec_str (nat (- n))
      else (let d = dec_str (nat n) in replicate (2 - length d) CHR ''0'' @ d))"

text \<open>A path below the output directory: the directory and the file name.\<close>

type_synonym path = "string \<times> string"

definition get_episode_filename :: "string \<Rightarrow> int \<Rightarrow> path" where
  "get_episode_filename output_dir episode =
     (output_dir, ''ep_'' @ format_02d episode @ ''.mp4'')"

text \<open>
  \<open>PurePath.suffix\<close>: the part of the name from its last dot, unless that dot is the
  first or the last character of the name.
\<close>

definition py_suffix :: "string \<Rightarrow> string" where
  "py_suffix name =
     (let r = takeWhile (\<lambda>c. c \<noteq> CHR ''.'') (rev name) in
      if CHR ''.'' \<notin> set name then []
      else if length r + 1 < length name \<and> r \<noteq> [] then CHR ''.'' # rev r else [])"

text \<open>\<open>PurePath.with_suffix\<close>; \<open>None\<close> stands for its \<open>ValueError\<close>.\<close>

definition with_suffix :: "path \<Rightarrow> string \<Rightarrow> path option" where
  "with_suffix p suffix =
     (if CHR ''/'' \<in> set suffix \<or> (suffix \<noteq> [] \<and> hd suffix \<noteq> CHR ''.'') \<or> suffix = ''.''
      then None
      else if snd p = [] then None
      else Some (fst p, take (length (snd p) - length (py_suffix (snd p))) (snd p) @ suffix))"

text \<open>
  The order of Python strings, by code point: the order in which \<open>sorted\<close> puts the
  artifact names found by \<open>merge_existing_videos\<close> (cli.py).
\<close>

fun str_less :: "string \<Rightarrow> string \<Rightarrow> bool" where
  "str_less [] [] = False"
| "str_less [] (y # ys) = True"
| "str_less (x # xs) [] = False"
| "str_less (x # xs) (y # ys) =
     ((of_char x :: nat) < of_char y \<or> (x = y \<and> str_less xs ys))"

section \<open>Session state and its snapshot (downloader.py)\<close>

record DownloadProgress =
  episode :: int
  downloaded_bytes :: int
  total_bytes :: int
  completed :: bool

record DownloadState =
  series_id :: int
  series_title :: string
  total_episodes :: int
  output_dir :: string
  selected_episodes :: "int list"
  completed_episodes :: "int list"
  current_episode :: "int option"
  current_progress :: "DownloadProgress option"

text \<open>
  The values that \<open>json.load\<close> returns and \<open>json.dump\<close> accepts: \<open>None\<close>, booleans,
  integers, strings, lists and dictionaries with string keys (an association list with
  distinct keys). Floating-point numbers are outside the model.
\<close>

datatype json =
    JNull | JBool bool | JInt int | JStr string
  | JList "json list" | JDict "(string \<times> json) list"

text \<open>\<open>dataclasses.asdict\<close> on the two records.\<close>

definition progress_asdict :: "DownloadProgress \<Rightarrow> json" where
  "progress_asdict p =
     JDict [(''episode'', JInt (episode p)),
            (''downloaded_bytes'', JInt (downloaded_bytes p)),
            (''total_bytes'', JInt (total_bytes p)),
            (''completed'', JBool (completed p))]"

definition asdict :: "DownloadState \<Rightarrow> json" where
  "asdict st =
     JDict [(''series_id'', JInt (series_id st)),
            (''series_title'', JStr (series_title st)),
            (''total_episodes'', JInt (total_episodes st)),
            (''output_dir'', JStr (output_dir st)),
            (''selected_episodes'', JList (map JInt (selected_episodes st))),
            (''completed_episodes'', JList (map JInt (completed_episodes st))),
            (''current_episode'',
               (case current_episode st of None \<Rightarrow> JNull | Some n \<Rightarrow> JInt n)),
            (''current_progress'',
               (case current_progress st of None \<Rightarrow> JNull | Some p \<Rightarrow> progress_asdict p))]"

text \<open>
  What opening a path as UTF-8 text and handing it to \<open>json.load\<close> meets: no file
  (\<open>FileNotFoundError\<close>), a file that cannot be opened for reading (another
  \<open>OSError\<close>, such as \<open>PermissionError\<close>), bytes that are not UTF-8
  (\<open>UnicodeDecodeError\<close>), text that is not JSON (\<open>JSONDecodeError\<close>), or the text of a
  JSON value. \<open>json.load\<close> of what \<open>json.dump\<close> wrote is taken to be the value that was
  written.
\<close>

datatype snapshot_file = NoFile | Unreadable | NotUtf8 | NotJson | JsonText json

type_synonym snapshots = "string \<Rightarrow> snapshot_file"

text \<open>
  \<open>DownloadState.save\<close>: \<open>open(path, 'w')\<close> and \<open>json.dump\<close>. The flag \<open>writable\<close>
  tells whether the file can be opened for writing; if not, \<open>OSError\<close> is raised and
  nothing is written.
\<close>

definition save :: "DownloadState \<Rightarrow> string \<Rightarrow> bool \<Rightarrow> snapshots \<Rightarrow> py_error + snapshots" where
  "save st p writable fs =
     (if writable then Inr (fs(p := JsonText (asdict st))) else Inl OSError)"


text \<open>
  Calling a dataclass with keyword arguments \<open>**kvs\<close>: \<open>TypeError\<close> for a keyword that is
  not a field and for a field without default that is missing. The result is the
  instance's fields, defaults filled in. No field is type-checked.
\<close>

definition call_dataclass ::
  "string list \<Rightarrow> (string \<times> 'v) list \<Rightarrow> (string \<times> 'v) list \<Rightarrow> py_error + (string \<times> 'v) list" where
  "call_dataclass required defaults kvs =
     (if (\<exists>k\<in>set (map fst kvs). k \<notin> set required \<and> k \<notin> set (map fst defaults))
         \<or> (\<exists>k\<in>set required. k \<notin> set (map fst kvs))
      then Inl TypeError
      else Inr (kvs @ filter (\<lambda>(k, v). k \<notin> set (map fst kvs)) defaults))"

text \<open>
  A field of an instance is either a JSON value or, for \<open>current_progress\<close>, a
  \<open>DownloadProgress\<close> instance, itself a table of JSON values.
\<close>

datatype field_value = Plain json | ProgressObj "(string \<times> json) list"

text \<open>
  The instance that \<open>load\<close> returns: \<open>Typed\<close> when every field holds a value of its
  annotated type, \<open>Untyped\<close> (with the fields as they are) otherwise.
\<close>

datatype loaded = Typed DownloadState | Untyped "(string \<times> field_value) list"

fun as_int :: "json \<Rightarrow> int option" where
  "as_int (JInt n) = Some n"
| "as_int _ = None"

fun as_str :: "json \<Rightarrow> string option" where
  "as_str (JStr s) = Some s"
| "as_str _ = None"

fun as_bool :: "json \<Rightarrow> bool option" where
  "as_bool (JBool b) = Some b"
| "as_bool _ = None"

fun as_ints :: "json list \<Rightarrow> int list option" where
  "as_ints [] = Some []"
| "as_ints (x # xs) =
     (case as_int x of
        None \<Rightarrow> None
      | Some n \<Rightarrow> map_option (\<lambda>ns. n # ns) (as_ints xs))"

fun as_int_list :: "json \<Rightarrow> int list option" where
  "as_int_list (JList xs) = as_ints xs"
| "as_int_list _ = None"

fun as_opt_int :: "json \<Rightarrow> int option option" where
  "as_opt_int JNull = Some None"
| "as_opt_int (JInt n) = Some (Some n)"
| "as_opt_int _ = None"

definition typed_progress :: "(string \<times> json) list \<Rightarrow> DownloadProgress option" where
  "typed_progress kvs =
     (case (Option.bind (map_of kvs ''episode'') as_int,
            Option.bind (map_of kvs ''downloaded_bytes'') as_int,
            Option.bind (map_of kvs ''total_bytes'') as_int,
            Option.bind (map_of kvs ''completed'') as_bool) of
        (Some e, Some d, Some t, Some c) \<Rightarrow>
          Some \<lparr>episode = e, downloaded_bytes = d, total_bytes = t, completed = c\<rparr>
      | _ \<Rightarrow> None)"

fun typed_opt_progress :: "field_value \<Rightarrow> DownloadProgress option option" where
  "typed_opt_progress (Plain JNull) = Some None"
| "typed_opt_progress (Plain _) = None"
| "typed_opt_progress (ProgressObj f) = map_option Some (typed_progress f)"

fun plain :: "field_value \<Rightarrow> json option" where
  "plain (Plain v) = Some v"
| "plain (ProgressObj f) = None"

definition typed_state :: "(string \<times> field_value) list \<Rightarrow> DownloadState option" where
  "typed_state kvs =
     (case (Option.bind (Option.bind (map_of kvs ''series_id'') plain) as_int,
            Option.bind (Option.bind (map_of kvs ''series_title'') plain) as_str,
            Option.bind (Option.bind (map_of kvs ''total_episodes'') plain) as_int,
            Option.bind (Option.bind (map_of kvs ''output_dir'') plain) as_str,
            Option.bind (Option.bind (map_of kvs ''selected_episodes'') plain) as_int_list,
            Option.bind (Option.bind (map_of kvs ''completed_episodes'') plain) as_int_list,
            Option.bind (Option.bind (map_of kvs ''current_episode'') plain) as_opt_int,
            Option.bind (map_of kvs ''current_progress'') typed_opt_progress) of
        (Some a, Some b, Some c, Some d, Some e, Some g, Some h, Some i) \<Rightarrow>
          Some \<lparr>series_id = a, series_title = b, total_episodes = c, output_dir = d,
                selected_episodes = e, completed_episodes = g, current_episode = h,
                current_progress = i\<rparr>
      | _ \<Rightarrow> None)"



text \<open>\<open>cls(**data)\<close> for \<open>DownloadState\<close>.\<close>

definition state_required :: "string list" where
  "state_required =
     [''series_id'', ''series_title'', ''total_episodes'', ''output_dir'',
      ''selected_episodes'', ''completed_episodes'']"

definition state_optional :: "string list" where
  "state_optional = [''current_episode'', ''current_progress'']"

definition make_state ::
  "(string \<times> field_value) list \<Rightarrow> py_error + (string \<times> field_value) list" where
  "make_state kvs =
     call_dataclass state_required (map (\<lambda>k. (k, Plain JNull)) state_optional) kvs"

definition classify :: "(string \<times> field_value) list \<Rightarrow> loaded" where
  "classify f = (case typed_state f of Some st \<Rightarrow> Typed st | None \<Rightarrow> Untyped f)"

text \<open>
  \<open>DownloadState.load\<close>. Only \<open>FileNotFoundError\<close> and \<open>json.JSONDecodeError\<close> are
  caught and turned into \<open>None\<close>; \<open>data.get\<close> raises \<open>AttributeError\<close> when the JSON
  value is not a dictionary. \<open>data['current_progress'] = ...\<close> replaces the entry of an
  existing key in place.
\<close>

definition construct :: "(string \<times> field_value) list \<Rightarrow> py_error + loaded option" where
  "construct kvs =
     (case make_state kvs of Inl e \<Rightarrow> Inl e | Inr inst \<Rightarrow> Inr (Some (classify inst)))"




section \<open>The download engine (downloader.py)\<close>

record EpisodeInfo =
  episode_number :: int
  title :: string
  video_url :: string

type_synonym bytes = "char list"

text \<open>
  What \<open>download_episode\<close> reads of a response: the status, the two headers it looks up
  (\<open>None\<close> when absent), and the chunks that \<open>iter_content\<close> yields, after which the
  iterator either stops or raises a \<open>requests.RequestException\<close> (a broken connection or
  a read timeout).
\<close>

datatype ending = Eof | StreamError

record response =
  status_code :: int
  content_range :: "string option"
  content_length :: "string option"
  chunks :: "bytes list"
  ending :: ending

text \<open>\<open>session.get\<close> returns a response or raises a \<open>requests.RequestException\<close>.\<close>

datatype get_result = GetRaises | Response response

text \<open>The calls by which a driver, from another thread, steers a running transfer.\<close>

datatype ctl = Pause | Resume | Cancel | Reset

text \<open>
  The surroundings of one call of \<open>download_episode\<close>: the server, as a function of the
  URL and of the \<open>Range\<close> header sent; the file-system faults (\<open>open\<close> of the partial
  artifact, \<open>write\<close> of the chunk with a given index, \<open>rename\<close>, and opening the state
  file for writing raise \<open>OSError\<close>); and the driver's calls: those made while the chunk
  with a given index was awaited, those made one per poll while the loop waits in a
  pause at that chunk, and those made after the last chunk had arrived.
\<close>

record env =
  server :: "string \<Rightarrow> string option \<Rightarrow> get_result"
  open_fails :: bool
  write_fails :: "nat \<Rightarrow> bool"
  rename_fails :: bool
  save_fails :: bool
  before_chunk :: "nat \<Rightarrow> ctl list"
  while_paused :: "nat \<Rightarrow> ctl list"
  at_eof :: "ctl list"

text \<open>
  A \<open>VideoDownloader\<close> together with the files it works on: the artifacts by path, the
  text files (of which the state file is one), and the log of the requests sent.
\<close>

record downloader =
  dl_output_dir :: string
  state :: "DownloadState option"
  paused :: bool
  cancelled :: bool
  files :: "path \<Rightarrow> bytes option"
  text_files :: snapshots
  requests :: "(string \<times> string option) list"

text \<open>How a call ends: it returns a value, raises, or never returns.\<close>

datatype 'a outcome = Returned 'a | Raised py_error | Blocked

definition CHUNK_SIZE :: int where
  "CHUNK_SIZE = 1024 * 1024"

definition pause :: "downloader \<Rightarrow> downloader" where
  "pause d = d\<lparr>paused := True\<rparr>"

definition resume :: "downloader \<Rightarrow> downloader" where
  "resume d = d\<lparr>paused := False\<rparr>"

definition cancel :: "downloader \<Rightarrow> downloader" where
  "cancel d = d\<lparr>cancelled := True\<rparr>"

definition reset :: "downloader \<Rightarrow> downloader" where
  "reset d = d\<lparr>paused := False, cancelled := False\<rparr>"

fun apply_ctl :: "downloader \<Rightarrow> ctl \<Rightarrow> downloader" where
  "apply_ctl d Pause = pause d"
| "apply_ctl d Resume = resume d"
| "apply_ctl d Cancel = cancel d"
| "apply_ctl d Reset = reset d"

definition state_file :: "downloader \<Rightarrow> string" where
  "state_file d = dl_output_dir d @ ''/download_state.json''"

text \<open>\<open>_save_state\<close>: nothing happens without a state.\<close>

definition save_state :: "env \<Rightarrow> downloader \<Rightarrow> py_error + downloader" where
  "save_state e d =
     (case state d of
        None \<Rightarrow> Inr d
      | Some st \<Rightarrow>
          (case save st (state_file d) (\<not> save_fails e) (text_files d) of
             Inl err \<Rightarrow> Inl err
           | Inr fs \<Rightarrow> Inr (d\<lparr>text_files := fs\<rparr>)))"

definition get_remaining_episodes :: "downloader \<Rightarrow> int list" where
  "get_remaining_episodes d =
     (case state d of
        None \<Rightarrow> []
      | Some st \<Rightarrow> filter (\<lambda>ep. ep \<notin> set (completed_episodes st)) (selected_episodes st))"

text \<open>An integer in an f-string.\<close>

definition py_str :: "int \<Rightarrow> string" where
  "py_str n = (if n < 0 then CHR ''-'' # dec_str (nat (- n)) else dec_str (nat n))"

text \<open>
  The total size from \<open>Content-Range\<close> (status 206) and from \<open>Content-Length\<close> (status
  200); \<open>None\<close> stands for the \<open>ValueError\<close> of \<open>int()\<close>.
\<close>

definition total_from_range :: "string option \<Rightarrow> int option" where
  "total_from_range h =
     (let content_range = (case h of None \<Rightarrow> [] | Some s \<Rightarrow> s) in
      if CHR ''/'' \<in> set content_range then py_int (last (split_on CHR ''/'' content_range))
      else Some 0)"

definition total_from_length :: "string option \<Rightarrow> int option" where
  "total_from_length h = (case h of None \<Rightarrow> Some 0 | Some s \<Rightarrow> py_int s)"

text \<open>
  The pause loop \<open>while self._paused and not self._cancelled: time.sleep(0.1)\<close>. The
  driver's calls arrive one per poll; when none is left the flags stay as they are, and a
  paused loop never ends (\<open>None\<close>).
\<close>

fun wait_loop :: "ctl list \<Rightarrow> downloader \<Rightarrow> downloader option" where
  "wait_loop [] d = (if paused d \<and> \<not> cancelled d then None else Some d)"
| "wait_loop (a # as) d =
     (if paused d \<and> \<not> cancelled d then wait_loop as (apply_ctl d a) else Some d)"

definition with_progress :: "int \<Rightarrow> int \<Rightarrow> int \<Rightarrow> downloader \<Rightarrow> downloader" where
  "with_progress ep downloaded total_size d =
     d\<lparr>state := map_option
          (\<lambda>st. st\<lparr>current_progress :=
             Some \<lparr>episode = ep, downloaded_bytes = downloaded, total_bytes = total_size,
                   completed = False\<rparr>\<rparr>)
          (state d)\<rparr>"

definition file_bytes :: "downloader \<Rightarrow> path \<Rightarrow> bytes" where
  "file_bytes d p = (case files d p of None \<Rightarrow> [] | Some b \<Rightarrow> b)"

text \<open>
  The loop over \<open>response.iter_content\<close>, from the chunk with index \<open>i\<close> on, with the
  local variables \<open>downloaded_bytes\<close> and \<open>bytes_since_last_update\<close>. The result is
  \<open>None\<close> when the chunks are used up, and how the call ends otherwise. The progress bar
  and the progress callback only display and are left out.
\<close>

fun transfer ::
  "env \<Rightarrow> int \<Rightarrow> path \<Rightarrow> int \<Rightarrow> nat \<Rightarrow> bytes list \<Rightarrow> int \<Rightarrow> int \<Rightarrow> downloader
     \<Rightarrow> bool outcome option \<times> downloader" where
  "transfer e ep tmp total_size i [] downloaded since d = (None, d)"
| "transfer e ep tmp total_size i (chunk # rest) downloaded since d =
     (let d1 = foldl apply_ctl d (before_chunk e i) in
      case wait_loop (while_paused e i) d1 of
        None \<Rightarrow> (Some Blocked, d1)
      | Some d2 \<Rightarrow>
          if cancelled d2 then
            (case save_state e d2 of
               Inl err \<Rightarrow> (Some (Raised err), d2)
             | Inr d3 \<Rightarrow> (Some (Returned False), d3))
          else if chunk = [] then transfer e ep tmp total_size (Suc i) rest downloaded since d2
          else if write_fails e i then (Some (Raised OSError), d2)
          else
            (let d3 = d2\<lparr>files := (files d2)(tmp \<mapsto> file_bytes d2 tmp @ chunk)\<rparr>;
                 downloaded' = downloaded + int (length chunk);
                 since' = since + int (length chunk)
             in if state d3 \<noteq> None \<and> CHUNK_SIZE * 5 \<le> since' then
                  (case save_state e (with_progress ep downloaded' total_size d3) of
                     Inl err \<Rightarrow> (Some (Raised err), with_progress ep downloaded' total_size d3)
                   | Inr d4 \<Rightarrow> transfer e ep tmp total_size (Suc i) rest downloaded' 0 d4)
                else transfer e ep tmp total_size (Suc i) rest downloaded' since' d3))"

text \<open>The handler \<open>except requests.RequestException\<close>.\<close>

definition handler :: "env \<Rightarrow> downloader \<Rightarrow> bool outcome \<times> downloader" where
  "handler e d =
     (case save_state e d of
        Inl err \<Rightarrow> (Raised err, d)
      | Inr d' \<Rightarrow> (Returned False, d'))"

definition mark_completed :: "int \<Rightarrow> downloader \<Rightarrow> downloader" where
  "mark_completed ep d =
     d\<lparr>state := map_option
          (\<lambda>st. st\<lparr>completed_episodes :=
                     (if ep \<in> set (completed_episodes st) then completed_episodes st
                      else completed_episodes st @ [ep]),
                   current_episode := None,
                   current_progress := None\<rparr>)
          (state d)\<rparr>"

text \<open>After the loop: the rename and the completion mark.\<close>

definition finish :: "env \<Rightarrow> int \<Rightarrow> path \<Rightarrow> path \<Rightarrow> downloader \<Rightarrow> bool outcome \<times> downloader" where
  "finish e ep tmp out d =
     (if rename_fails e then (Raised OSError, d)
      else
        (let d1 = d\<lparr>files := (files d)(out := files d tmp, tmp := None)\<rparr>;
             d2 = mark_completed ep d1
         in case save_state e d2 of
              Inl err \<Rightarrow> (Raised err, d2)
            | Inr d3 \<Rightarrow> (Returned True, d3)))"

text \<open>
  From the first checkpoint to the end of \<open>download_episode\<close>, for a response with
  status 206 or 200, with \<open>downloaded\<close> the offset that the transfer starts from.
\<close>

definition stream_body ::
  "env \<Rightarrow> int \<Rightarrow> path \<Rightarrow> path \<Rightarrow> response \<Rightarrow> int \<Rightarrow> int \<Rightarrow> downloader
     \<Rightarrow> bool outcome \<times> downloader" where
  "stream_body e ep tmp out r downloaded total_size d =
     (let d1 = with_progress ep downloaded total_size d in
      case save_state e d1 of
        Inl err \<Rightarrow> (Raised err, d1)
      | Inr d2 \<Rightarrow>
          if open_fails e then (Raised OSError, d2)
          else
            (let append_mode = (0 < downloaded \<and> status_code r = 206);
                 d3 = d2\<lparr>files := (files d2)(tmp \<mapsto> (if append_mode then file_bytes d2 tmp else []))\<rparr>
             in case transfer e ep tmp total_size 0 (chunks r) downloaded 0 d3 of
                  (Some oc, d4) \<Rightarrow> (oc, d4)
                | (None, d4) \<Rightarrow>
                    (let d5 = foldl apply_ctl d4 (at_eof e) in
                     if ending r = StreamError then handler e d5
                     else finish e ep tmp out d5)))"

definition range_header :: "int \<Rightarrow> string option" where
  "range_header downloaded =
     (if 0 < downloaded then Some (''bytes='' @ py_str downloaded @ ''-'') else None)"

definition download_episode :: "env \<Rightarrow> EpisodeInfo \<Rightarrow> downloader \<Rightarrow> bool outcome \<times> downloader" where
  "download_episode e episode_info d =
     (let ep = episode_number episode_info;
          output_file = get_episode_filename (dl_output_dir d) ep
      in case with_suffix output_file ''.mp4.part'' of
           None \<Rightarrow> (Raised ValueError, d)
         | Some temp_file \<Rightarrow>
             (let downloaded = (case files d temp_file of None \<Rightarrow> 0 | Some b \<Rightarrow> int (length b));
                  d1 = d\<lparr>state := map_option (\<lambda>st. st\<lparr>current_episode := Some ep\<rparr>) (state d)\<rparr>;
                  headers = range_header downloaded;
                  d2 = d1\<lparr>requests := requests d1 @ [(video_url episode_info, headers)]\<rparr>
              in case server e (video_url episode_info) headers of
                   GetRaises \<Rightarrow> handler e d2
                 | Response r \<Rightarrow>
                     if status_code r = 206 then
                       (case total_from_range (content_range r) of
                          None \<Rightarrow> (Raised ValueError, d2)
                        | Some total_size \<Rightarrow> stream_body e ep temp_file output_file r downloaded total_size d2)
                     else if status_code r = 200 then
                       (case total_from_length (content_length r) of
                          None \<Rightarrow> (Raised ValueError, d2)
                        | Some total_size \<Rightarrow> stream_body e ep temp_file output_file r 0 total_size d2)
                     else (Returned False, d2)))"

text \<open>
  \<open>download_all\<close>, from the episode with index \<open>i\<close> on, with the counters \<open>successful\<close>
  and \<open>failed\<close>; \<open>envs i\<close> is what surrounds the transfer of the episode with index \<open>i\<close>.
\<close>

fun download_all_from ::
  "(nat \<Rightarrow> env) \<Rightarrow> nat \<Rightarrow> EpisodeInfo list \<Rightarrow> int \<Rightarrow> int \<Rightarrow> downloader
     \<Rightarrow> (int \<times> int) outcome \<times> downloader" where
  "download_all_from envs i [] successful failed d = (Returned (successful, failed), d)"
| "download_all_from envs i (info # rest) successful failed d =
     (if cancelled d then (Returned (successful, failed), d)
      else if (case state d of
                 None \<Rightarrow> False
               | Some st \<Rightarrow> episode_number info \<in> set (completed_episodes st))
      then download_all_from envs (Suc i) rest (successful + 1) failed d
      else
        (case download_episode (envs i) info d of
           (Returned True, d') \<Rightarrow> download_all_from envs (Suc i) rest (successful + 1) failed d'
         | (Returned False, d') \<Rightarrow>
             download_all_from envs (Suc i) rest successful
               (if cancelled d' then failed else failed + 1) d'
         | (Raised err, d') \<Rightarrow> (Raised err, d')
         | (Blocked, d') \<Rightarrow> (Blocked, d')))"

definition download_all ::
  "(nat \<Rightarrow> env) \<Rightarrow> EpisodeInfo list \<Rightarrow> downloader \<Rightarrow> (int \<times> int) outcome \<times> downloader" where
  "download_all envs episodes d = download_all_from envs 0 episodes 0 0 d"

text \<open>Sample values for closed statements: an episode, a server, a quiet fault-free
  environment, and downloaders with and without a session state.\<close>

definition sample_episode :: EpisodeInfo where
  "sample_episode = \<lparr>episode_number = 1, title = ''Ep 1'', video_url = ''http://example.com/1.mp4''\<rparr>"

definition sample_response :: "int \<Rightarrow> string option \<Rightarrow> string option \<Rightarrow> bytes list \<Rightarrow> response" where
  "sample_response st cr cl cs =
     \<lparr>status_code = st, content_range = cr, content_length = cl, chunks = cs, ending = Eof\<rparr>"

definition quiet_env :: "response \<Rightarrow> env" where
  "quiet_env r =
     \<lparr>server = (\<lambda>url range. Response r), open_fails = False, write_fails = (\<lambda>i. False),
      rename_fails = False, save_fails = False, before_chunk = (\<lambda>i. []),
      while_paused = (\<lambda>i. []), at_eof = []\<rparr>"

definition fresh_downloader :: "DownloadState option \<Rightarrow> downloader" where
  "fresh_downloader st =
     \<lparr>dl_output_dir = ''out'', state = st, paused = False, cancelled = False,
      files = (\<lambda>p. None), text_files = (\<lambda>p. NoFile), requests = []\<rparr>"

definition session_123 :: "int list \<Rightarrow> DownloadState" where
  "session_123 done =
     \<lparr>series_id = 941, series_title = ''Test'', total_episodes = 10, output_dir = ''out'',
      selected_episodes = [1, 2, 3], completed_episodes = done, current_episode = None,
      current_progress = None\<rparr>"

section \<open>Facts about the text primitives\<close>

lemma is_digit_facts:
  assumes "is_digit c"
  shows "\<not> is_space c" "c \<noteq> CHR ''-''" "c \<noteq> CHR '',''" "c \<noteq> CHR ''_''"
    "c \<noteq> CHR ''+''" "py_lower c = c" "c \<noteq> CHR ''a''" "py_lower c \<noteq> CHR ''a''"
    "c \<noteq> CHR ''.''" "\<not> is_ascii_space c" "(of_char c :: nat) < 128"
  using assms
  by (auto simp: is_digit_def is_space_def is_ascii_space_def py_lower_def Let_def)



lemma split_on_no_sep_inside: "t \<in> set (split_on sep s) \<Longrightarrow> sep \<notin> set t"
proof (induction s arbitrary: t)
  case Nil
  then show ?case by simp
next
  case (Cons c cs)
  show ?case
  proof (cases "c = sep")
    case True
    then show ?thesis using Cons by auto
  next
    case False
    then show ?thesis using Cons by (auto split: list.splits)
  qed
qed








section \<open>Selection parsing\<close>























section \<open>Artifact naming\<close>

lemma digit_char_is_digit: "d < 10 \<Longrightarrow> is_digit (digit_char d)"
  by (simp add: digit_char_def is_digit_def)

lemma digit_val_digit_char: "d < 10 \<Longrightarrow> digit_val (digit_char d) = int d"
  by (simp add: digit_char_def digit_val_def)

lemma dec_val_snoc: "dec_val (s @ [c]) = 10 * dec_val s + digit_val c"
  by (simp add: dec_val_def)

lemma dec_val_dec_str: "dec_val (dec_str n) = int n"
proof (induction n rule: dec_str.induct)
  case (1 n)
  show ?case
  proof (cases "n < 10")
    case True
    then show ?thesis by (simp add: dec_str.simps[of n] dec_val_def digit_val_digit_char)
  next
    case False
    have "10 * int (n div 10) + int (n mod 10) = int n" by presburger
    then show ?thesis using 1 False
      by (simp add: dec_str.simps[of n] dec_val_snoc digit_val_digit_char)
  qed
qed

lemma dec_str_digits: "list_all is_digit (dec_str n)"
proof (induction n rule: dec_str.induct)
  case (1 n)
  show ?case
  proof (cases "n < 10")
    case True
    then show ?thesis by (simp add: dec_str.simps[of n] digit_char_is_digit)
  next
    case False
    then show ?thesis using 1
      by (simp add: dec_str.simps[of n] digit_char_is_digit)
  qed
qed

lemma dec_str_ne: "dec_str n \<noteq> []"
  by (subst dec_str.simps) simp

lemma dec_val_zeros: "dec_val (replicate k CHR ''0'' @ s) = dec_val s"
  by (induction k) (simp_all add: dec_val_def digit_val_def)


lemma format_neg_hd: "n < 0 \<Longrightarrow> hd (format_02d n) = CHR ''-''"
  by (simp add: format_02d_def)

lemma format_pos_digits: 
  assumes "\<not> n < 0" shows "list_all is_digit (format_02d n)"
proof -
  have z: "is_digit CHR ''0''" by (simp add: is_digit_def)
  show ?thesis using assms dec_str_digits[of "nat n"] z
    by (auto simp: format_02d_def Let_def list_all_iff)
qed

lemma format_pos_hd:
  assumes "\<not> n < 0" shows "hd (format_02d n) \<noteq> CHR ''-''"
proof -
  have "format_02d n \<noteq> []" using assms dec_str_ne[of "nat n"] by (simp add: format_02d_def Let_def)
  then have "is_digit (hd (format_02d n))" using format_pos_digits[OF assms]
    by (cases "format_02d n") auto
  then show ?thesis using is_digit_facts(2) by blast
qed

lemma format_pos_val: "\<not> n < 0 \<Longrightarrow> dec_val (format_02d n) = n"
  by (simp add: format_02d_def Let_def dec_val_zeros dec_val_dec_str)

lemma format_neg_val: "n < 0 \<Longrightarrow> dec_val (tl (format_02d n)) = - n"
  by (simp add: format_02d_def dec_val_dec_str)

lemma format_02d_inj: 
  assumes eq: "format_02d a = format_02d b" shows "a = b"
proof (cases "a < 0")
  case True
  then have b: "b < 0" using format_neg_hd[of a] format_pos_hd[of b] eq by metis
  have "- a = dec_val (tl (format_02d a))" by (rule format_neg_val[OF True, symmetric])
  also have "\<dots> = dec_val (tl (format_02d b))" by (simp only: eq)
  also have "\<dots> = - b" by (rule format_neg_val[OF b])
  finally show ?thesis by simp
next
  case False
  then have b: "\<not> b < 0" using format_neg_hd[of b] format_pos_hd[of a] eq by metis
  have "a = dec_val (format_02d a)" by (rule format_pos_val[OF False, symmetric])
  also have "\<dots> = dec_val (format_02d b)" by (simp only: eq)
  also have "\<dots> = b" by (rule format_pos_val[OF b])
  finally show ?thesis .
qed

lemma get_episode_filename_inj:
  "get_episode_filename d a = get_episode_filename d b \<Longrightarrow> a = b"
  by (simp add: get_episode_filename_def format_02d_inj)

lemma format_02d_no_dot: "CHR ''.'' \<notin> set (format_02d n)"
  using dec_str_digits[of "nat n"] dec_str_digits[of "nat (- n)"] is_digit_facts(9)
  by (auto simp: format_02d_def Let_def list_all_iff)

lemma py_suffix_mp4: "CHR ''.'' \<notin> set s \<Longrightarrow> py_suffix (''ep_'' @ s @ ''.mp4'') = ''.mp4''"
  by (simp add: py_suffix_def)

lemma temp_file_name:
  "with_suffix (get_episode_filename d n) ''.mp4.part'' =
     Some (d, snd (get_episode_filename d n) @ ''.part'')"
  using py_suffix_mp4[OF format_02d_no_dot[of n]]
  by (simp add: with_suffix_def get_episode_filename_def)

lemma format_two_digits:
  assumes "0 \<le> n" "n \<le> 99"
  shows "format_02d n = [digit_char (nat n div 10), digit_char (nat n mod 10)]"
proof (cases "nat n < 10")
  case True
  then have "dec_str (nat n) = [digit_char (nat n)]" by (simp add: dec_str.simps[of "nat n"])
  moreover have "digit_char 0 = CHR ''0''"
  proof -
    have "(of_char (char_of (48::nat)) :: nat) = of_char CHR ''0''" by simp
    then show ?thesis unfolding digit_char_def by (simp only: of_char_eq_iff add_0_right)
  qed
  ultimately show ?thesis using True assms by (simp add: format_02d_def)
next
  case False
  then have "nat n div 10 < 10" using assms by auto
  then have "dec_str (nat n) = [digit_char (nat n div 10), digit_char (nat n mod 10)]"
    using False by (simp add: dec_str.simps[of "nat n"] dec_str.simps[of "nat n div 10"])
  then show ?thesis using assms by (simp add: format_02d_def)
qed

lemma of_char_digit_char: "d < 10 \<Longrightarrow> (of_char (digit_char d) :: nat) = 48 + d"
  by (simp add: digit_char_def)

lemma digit_char_eq:
  assumes "x < 10" "y < 10"
  shows "digit_char x = digit_char y \<longleftrightarrow> x = y"
proof
  assume "digit_char x = digit_char y"
  then have "(of_char (digit_char x) :: nat) = of_char (digit_char y)" by (simp only:)
  then have "48 + x = 48 + y"
    by (simp only: of_char_digit_char[OF assms(1)] of_char_digit_char[OF assms(2)])
  then show "x = y" by simp
next
  assume "x = y" then show "digit_char x = digit_char y" by (simp only:)
qed

lemma str_less_irrefl: "\<not> str_less s s"
  by (induction s) auto

lemma str_less_prefix: "str_less (p @ xs) (p @ ys) = str_less xs ys"
  by (induction p) auto

lemma str_less_two_digits:
  assumes "p < 10" "q < 10" "r < 10" "s < 10"
  shows "str_less (digit_char p # digit_char q # t) (digit_char r # digit_char s # t)
           \<longleftrightarrow> p < r \<or> (p = r \<and> q < s)"
  by (simp add: of_char_digit_char[OF assms(1)] of_char_digit_char[OF assms(2)]
      of_char_digit_char[OF assms(3)] of_char_digit_char[OF assms(4)]
      digit_char_eq[OF assms(1,3)] digit_char_eq[OF assms(2,4)] str_less_irrefl)

lemma two_digit_order:
  "((x::nat) div 10 < y div 10 \<or> (x div 10 = y div 10 \<and> x mod 10 < y mod 10)) \<longleftrightarrow> x < y"
proof -
  have x: "x = 10 * (x div 10) + x mod 10" and y: "y = 10 * (y div 10) + y mod 10" by simp_all
  have mx: "x mod 10 < 10" and my: "y mod 10 < 10" by simp_all
  show ?thesis using x y mx my by linarith
qed

lemma name_order:
  assumes "0 \<le> a" "a \<le> 99" "0 \<le> b" "b \<le> 99"
  shows "str_less (snd (get_episode_filename d a)) (snd (get_episode_filename d b)) \<longleftrightarrow> a < b"
proof -
  have d: "nat a div 10 < 10" "nat a mod 10 < 10" "nat b div 10 < 10" "nat b mod 10 < 10"
    using assms by auto
  have "str_less (snd (get_episode_filename d a)) (snd (get_episode_filename d b)) \<longleftrightarrow>
        str_less (format_02d a @ ''.mp4'') (format_02d b @ ''.mp4'')"
    unfolding get_episode_filename_def snd_conv by (rule str_less_prefix)
  also have "\<dots> \<longleftrightarrow>
        (nat a div 10 < nat b div 10 \<or> (nat a div 10 = nat b div 10 \<and> nat a mod 10 < nat b mod 10))"
    unfolding format_two_digits[OF assms(1,2)] format_two_digits[OF assms(3,4)] append_Cons append_Nil
    by (rule str_less_two_digits[OF d])
  also have "\<dots> \<longleftrightarrow> nat a < nat b" by (rule two_digit_order)
  also have "\<dots> \<longleftrightarrow> a < b" using assms by auto
  finally show ?thesis .
qed

lemma name_examples:
  "get_episode_filename d 1 = (d, ''ep_01.mp4'')"
  "get_episode_filename d 15 = (d, ''ep_15.mp4'')"
  "get_episode_filename d 100 = (d, ''ep_100.mp4'')"
  by (simp_all add: get_episode_filename_def) code_simp+

text \<open>
  C7 (as amended). \<open>get_episode_filename\<close> is injective in the episode number, for every
  integer; for episode numbers from 0 to 99 the order of the final artifact names as
  strings is the order of the numbers; the partial artifact's name is the final
  artifact's name followed by \<open>.part\<close>. Episodes 1, 15 and 100 are named as the
  repository's tests expect.
\<close>

theorem episode_filename_naming:
  "(get_episode_filename d a = get_episode_filename d b \<longrightarrow> a = b)
   \<and> (0 \<le> a \<and> a \<le> 99 \<and> 0 \<le> b \<and> b \<le> 99 \<longrightarrow>
        (str_less (snd (get_episode_filename d a)) (snd (get_episode_filename d b))
           \<longleftrightarrow> a < b))
   \<and> with_suffix (get_episode_filename d a) ''.mp4.part'' =
        Some (d, snd (get_episode_filename d a) @ ''.part'')
   \<and> get_episode_filename d 1 = (d, ''ep_01.mp4'')
   \<and> get_episode_filename d 15 = (d, ''ep_15.mp4'')
   \<and> get_episode_filename d 100 = (d, ''ep_100.mp4'')"
  using get_episode_filename_inj[of d a b] name_order[of a b d] temp_file_name[of d a]
    name_examples[of d]
  by blast

theorem episode_filename_naming_witness:
  "(0::int) \<le> 7 \<and> (7::int) \<le> 99 \<and> (0::int) \<le> 70 \<and> (70::int) \<le> 99
   \<and> get_episode_filename ''out'' 7 = get_episode_filename ''out'' 7
   \<and> str_less (snd (get_episode_filename ''out'' 7)) (snd (get_episode_filename ''out'' 70))
   \<and> with_suffix (get_episode_filename ''out'' 7) ''.mp4.part'' =
        Some (''out'', snd (get_episode_filename ''out'' 7) @ ''.part'')"
proof -
  have h: "(0::int) \<le> 7 \<and> (7::int) \<le> 99 \<and> (0::int) \<le> 70 \<and> (70::int) \<le> 99" by simp
  have lt: "(7::int) < 70" by simp
  show ?thesis using episode_filename_naming[of "''out''" 7 70] h lt by blast
qed

text \<open>
  C7 as stated fails beyond two digits: episode 11 comes before episode 100, while the
  name of episode 100 comes before the name of episode 11 and not after it.
\<close>

theorem episode_filename_order_counterexample:
  "(11::int) < 100
   \<and> str_less (snd (get_episode_filename ''out'' 100)) (snd (get_episode_filename ''out'' 11))
   \<and> \<not> str_less (snd (get_episode_filename ''out'' 11)) (snd (get_episode_filename ''out'' 100))"
  by code_simp

section \<open>Snapshot persistence\<close>





lemma construct_error: "construct kvs = Inl e \<Longrightarrow> e = TypeError"
  by (auto simp: construct_def make_state_def call_dataclass_def split: sum.splits if_splits)










section \<open>The download engine\<close>

lemma save_state_Inr:
  "save_state e d = Inr d' \<Longrightarrow>
     d' = d\<lparr>text_files :=
            (case state d of
               None \<Rightarrow> text_files d
             | Some st \<Rightarrow> (text_files d)(state_file d := JsonText (asdict st)))\<rparr>"
  by (auto simp: save_state_def save_def split: option.splits if_splits)

lemma save_state_Inl:
  "save_state e d = Inl err \<Longrightarrow> err = OSError \<and> save_fails e \<and> state d \<noteq> None"
  by (auto simp: save_state_def save_def split: option.splits if_splits)

lemma save_state_ok:
  "\<not> save_fails e \<or> state d = None \<Longrightarrow>
     save_state e d =
       Inr (d\<lparr>text_files :=
              (case state d of
                 None \<Rightarrow> text_files d
               | Some st \<Rightarrow> (text_files d)(state_file d := JsonText (asdict st)))\<rparr>)"
  by (auto simp: save_state_def save_def split: option.splits)

lemma save_state_fails:
  "save_fails e \<Longrightarrow> state d = Some st \<Longrightarrow> save_state e d = Inl OSError"
  by (simp add: save_state_def save_def)

lemma wait_loop_idle: "\<not> (paused d \<and> \<not> cancelled d) \<Longrightarrow> wait_loop acts d = Some d"
  by (cases acts) auto

section \<open>Idempotence of a completed session\<close>

lemma remaining_empty_iff:
  "state d = Some st \<Longrightarrow>
     get_remaining_episodes d = [] \<longleftrightarrow> set (selected_episodes st) \<subseteq> set (completed_episodes st)"
  by (auto simp: get_remaining_episodes_def filter_empty_conv)

lemma download_all_from_completed:
  assumes "state d = Some st" "\<not> cancelled d"
    "\<forall>info\<in>set episodes. episode_number info \<in> set (completed_episodes st)"
  shows "download_all_from envs i episodes s f d = (Returned (s + int (length episodes), f), d)"
  using assms(3)
proof (induction episodes arbitrary: i s)
  case Nil
  then show ?case by simp
next
  case (Cons info rest)
  then show ?case using assms(1,2) by simp
qed

lemma download_all_from_cancelled:
  "cancelled d \<Longrightarrow> download_all_from envs i episodes s f d = (Returned (s, f), d)"
  by (cases episodes) auto

text \<open>
  C9 (as amended). With a session state, \<open>get_remaining_episodes\<close> is empty exactly when
  every selected episode is completed. On a downloader whose cancel flag is not set,
  \<open>download_all\<close> over episodes that are all completed returns the number of episodes
  and 0 and leaves the downloader and its files as they were: no request is sent and no
  transfer is started. On a downloader whose cancel flag is set it returns 0 and 0,
  again without any request.
\<close>

theorem completed_session_idempotent:
  "(state d = Some st \<longrightarrow>
      (get_remaining_episodes d = [] \<longleftrightarrow>
         set (selected_episodes st) \<subseteq> set (completed_episodes st)))
   \<and> (state d = Some st \<and> \<not> cancelled d
        \<and> (\<forall>info\<in>set episodes. episode_number info \<in> set (completed_episodes st)) \<longrightarrow>
        download_all envs episodes d = (Returned (int (length episodes), 0), d))
   \<and> (cancelled d \<longrightarrow> download_all envs episodes d = (Returned (0, 0), d))"
  using remaining_empty_iff[of d st]
    download_all_from_completed[of d st episodes envs 0 0 0]
    download_all_from_cancelled[of d envs 0 episodes 0 0]
  by (simp add: download_all_def)

theorem completed_session_idempotent_witness:
  "state (fresh_downloader (Some (session_123 [1, 2, 3]))) = Some (session_123 [1, 2, 3])
   \<and> get_remaining_episodes (fresh_downloader (Some (session_123 [1, 2, 3]))) = []
   \<and> download_all (\<lambda>i. quiet_env (sample_response 404 None None [])) [sample_episode]
        (fresh_downloader (Some (session_123 [1, 2, 3])))
      = (Returned (1, 0), fresh_downloader (Some (session_123 [1, 2, 3])))
   \<and> cancelled (cancel (fresh_downloader None))
   \<and> download_all (\<lambda>i. quiet_env (sample_response 404 None None [])) [sample_episode]
        (cancel (fresh_downloader None))
      = (Returned (0, 0), cancel (fresh_downloader None))"
proof -
  let ?d = "fresh_downloader (Some (session_123 [1, 2, 3]))"
  let ?c = "cancel (fresh_downloader None)"
  let ?envs = "\<lambda>i::nat. quiet_env (sample_response 404 None None [])"
  have h1: "state ?d = Some (session_123 [1, 2, 3])" by (simp add: fresh_downloader_def)
  have h2: "\<not> cancelled ?d" by (simp add: fresh_downloader_def)
  have h3: "\<forall>info\<in>set [sample_episode].
              episode_number info \<in> set (completed_episodes (session_123 [1, 2, 3]))"
    by (simp add: sample_episode_def session_123_def)
  have h4: "set (selected_episodes (session_123 [1, 2, 3]))
              \<subseteq> set (completed_episodes (session_123 [1, 2, 3]))"
    by (simp add: session_123_def)
  have h5: "cancelled ?c" by (simp add: cancel_def)
  note T = completed_session_idempotent[of ?d "session_123 [1, 2, 3]" "[sample_episode]" ?envs]
  note U = completed_session_idempotent[of ?c _ "[sample_episode]" ?envs]
  have c1: "get_remaining_episodes ?d = []" using T h1 h4 by blast
  have c2: "download_all ?envs [sample_episode] ?d = (Returned (1, 0), ?d)"
    using T h1 h2 h3 by simp
  have c3: "download_all ?envs [sample_episode] ?c = (Returned (0, 0), ?c)"
    using U h5 by blast
  show ?thesis using h1 h5 c1 c2 c3 by simp
qed

text \<open>
  C9 as stated fails when the cancel flag is set: over one episode that is already
  completed, \<open>download_all\<close> returns 0 and 0, not 1 and 0.
\<close>

theorem completed_session_cancelled_counterexample:
  "fst (download_all (\<lambda>i. quiet_env (sample_response 404 None None [])) [sample_episode]
         (cancel (fresh_downloader (Some (session_123 [1, 2, 3])))))
     = Returned (0, 0)
   \<and> episode_number sample_episode \<in> set (completed_episodes (session_123 [1, 2, 3]))
   \<and> int (length [sample_episode]) = 1"
  by (simp add: download_all_def cancel_def fresh_downloader_def sample_episode_def
      session_123_def)

end
